theory Spec2Isabelle
  imports
    Complex_Main
    "HOL-Library.Sublist"
    "HOL-Library.Char_ord"
    "HOL-Library.List_Lexorder"
    "HOL-Library.Product_Lexorder"
    "HOL-Library.AList"
begin

section \<open>Schema inspector: strings and paths\<close>

text \<open>
  Python strings are modelled as \<^typ>\<open>string\<close> (a list of bytes, UTF-8). The patterns
  the program looks for (\<open>id\<close>, \<open>uuid\<close>, \<open>_cd\<close>, \<open>percent\<close>, \<open>rate\<close>, the file
  extensions) are ASCII, and \<open>str.lower\<close> is modelled on the ASCII letters, the other
  bytes being left as they are. Byte-wise lexicographic order on UTF-8 is the order of the
  code points, which is how Python compares strings.
\<close>

definition lower_char :: "char \<Rightarrow> char" where
  "lower_char c =
     (case map_of (zip ''ABCDEFGHIJKLMNOPQRSTUVWXYZ'' ''abcdefghijklmnopqrstuvwxyz'') c of
        Some d \<Rightarrow> d
      | None \<Rightarrow> c)"

definition lower :: "string \<Rightarrow> string" where
  "lower s = map lower_char s"

text \<open>\<open>sub in s\<close>: \<open>sub\<close> occurs in \<open>s\<close> as a contiguous run.\<close>

fun contains :: "string \<Rightarrow> string \<Rightarrow> bool" where
  "contains sub [] = (sub = [])"
| "contains sub (c # cs) = (prefix sub (c # cs) \<or> contains sub cs)"

text \<open>\<open>s.endswith(suf)\<close>: the last \<open>len(suf)\<close> characters of \<open>s\<close> are \<open>suf\<close>.\<close>

definition endswith :: "string \<Rightarrow> string \<Rightarrow> bool" where
  "endswith s suf = (length suf \<le> length s \<and> drop (length s - length suf) s = suf)"

text \<open>
  A \<open>pathlib.Path\<close> is the list of its components (\<open>Path.parts\<close>); \<open>Path.name\<close> is the
  last one. \<open>Path.suffix\<close> is the name from its last dot on, unless that dot is the first
  or the last character of the name (or there is none), where it is empty.
\<close>

type_synonym path = "string list"

definition path_name :: "path \<Rightarrow> string" where
  "path_name p = (if p = [] then [] else last p)"

text \<open>\<open>str.rfind\<close> of one character: the last index holding it, or \<open>-1\<close>.\<close>

definition rfind :: "string \<Rightarrow> char \<Rightarrow> int" where
  "rfind s c =
     (case filter (\<lambda>i. s ! i = c) (rev [0..<length s]) of
        [] \<Rightarrow> - 1
      | i # _ \<Rightarrow> int i)"

definition path_suffix :: "path \<Rightarrow> string" where
  "path_suffix p =
     (let name = path_name p; i = rfind name (CHR ''.'') in
      if 0 < i \<and> i < int (length name) - 1 then drop (nat i) name else [])"

definition SUPPORTED_EXTENSIONS :: "string set" where
  "SUPPORTED_EXTENSIONS = {''.csv'', ''.parquet'', ''.feather'', ''.xlsx'', ''.xls''}"

section \<open>Data model\<close>

text \<open>
  The role strings of the program, in its Portuguese: \<open>target\<close>, \<open>id\<close>, \<open>datetime\<close>,
  \<open>numerica\<close>, \<open>binaria\<close>, \<open>categorica\<close> (each written with its accent in the source) and
  \<open>desconhecido\<close>; each literal is one constructor.
\<close>

datatype role = Target | Id | Datetime | Numerica | Binaria | Categorica | Desconhecido

text \<open>
  The note strings: \<open>possivel identificador\<close>, \<open>coluna constante\<close>, \<open>binaria\<close>,
  \<open>verificar escala percentual\<close>, \<open>alta cardinalidade\<close> (accents left out here).
\<close>

datatype nota =
    PossivelIdentificador
  | ColunaConstante
  | NotaBinaria
  | VerificarEscalaPercentual
  | AltaCardinalidade

text \<open>
  The errors the program can meet: the \<open>ValueError\<close> that \<open>load_table\<close> raises itself
  (with its message), any exception of a pandas reader (with its message), a division by
  zero, the \<open>AttributeError\<close> of \<open>name.lower()\<close> on a column label that is not a string,
  the \<open>TypeError\<close> of pandas on hashing a cell that cannot be hashed, and the \<open>OSError\<close>
  of a file that cannot be written (with its message).
\<close>

datatype error =
    ValueError string
  | ReadError string
  | ZeroDivisionError
  | AttributeError
  | TypeError
  | OSError string

text \<open>
  The dtype of a column is what the program observes of it: its name (\<open>str(series.dtype)\<close>)
  and the answers of the five \<open>pandas.api.types\<close> predicates that \<open>infer_role\<close> asks.
  The answers are not independent in pandas; the constants below are the combinations of
  the common dtypes.
\<close>

record dtype =
  dtype_str :: string
  is_datetime64_any_dtype :: bool
  is_numeric_dtype :: bool
  is_bool_dtype :: bool
  is_string_dtype :: bool
  is_categorical_dtype :: bool

definition int64_dtype :: dtype where
  "int64_dtype = \<lparr>dtype_str = ''int64'', is_datetime64_any_dtype = False,
     is_numeric_dtype = True, is_bool_dtype = False, is_string_dtype = False,
     is_categorical_dtype = False\<rparr>"

text \<open>
  NumPy's \<open>bool\<close>: \<open>is_numeric_dtype\<close> accepts \<open>np.number\<close> and \<open>np.bool_\<close>, so pandas
  answers yes to both \<open>is_numeric_dtype\<close> and \<open>is_bool_dtype\<close>.
\<close>

definition bool_dtype :: dtype where
  "bool_dtype = \<lparr>dtype_str = ''bool'', is_datetime64_any_dtype = False,
     is_numeric_dtype = True, is_bool_dtype = True, is_string_dtype = False,
     is_categorical_dtype = False\<rparr>"

definition datetime64_dtype :: dtype where
  "datetime64_dtype = \<lparr>dtype_str = ''datetime64[ns]'', is_datetime64_any_dtype = True,
     is_numeric_dtype = False, is_bool_dtype = False, is_string_dtype = False,
     is_categorical_dtype = False\<rparr>"

text \<open>An \<open>object\<close> column that holds strings and nothing else.\<close>

definition object_dtype :: dtype where
  "object_dtype = \<lparr>dtype_str = ''object'', is_datetime64_any_dtype = False,
     is_numeric_dtype = False, is_bool_dtype = False, is_string_dtype = True,
     is_categorical_dtype = False\<rparr>"

text \<open>
  A \<open>pandas.Series\<close>: its dtype and its cells in row order, \<open>None\<close> for a missing value
  (NaN, None, NaT).
\<close>

record 'a series =
  s_dtype :: dtype
  s_values :: "'a option list"

definition len_series :: "'a series \<Rightarrow> nat" where
  "len_series s = length (s_values s)"

text \<open>\<open>Series.dropna()\<close>, as the list of the values that are there.\<close>

primrec present :: "'b option list \<Rightarrow> 'b list" where
  "present [] = []"
| "present (v # vs) = (case v of None \<Rightarrow> present vs | Some x \<Rightarrow> x # present vs)"

definition dropna :: "'a series \<Rightarrow> 'a list" where
  "dropna s = present (s_values s)"

text \<open>
  \<open>unique()\<close>: the distinct values in the order of their first appearance
  (\<^const>\<open>remdups\<close> keeps the last appearance of each, hence the reversals).
\<close>

definition unique :: "'b list \<Rightarrow> 'b list" where
  "unique xs = rev (remdups (rev xs))"

text \<open>\<open>Series.nunique(dropna=True)\<close> and \<open>Series.nunique(dropna=False)\<close>.\<close>

definition nunique :: "'a series \<Rightarrow> nat" where
  "nunique s = length (unique (dropna s))"

definition nunique_with_na :: "'a series \<Rightarrow> nat" where
  "nunique_with_na s = length (unique (s_values s))"

text \<open>
  Floats are modelled as rationals and a division as a partial operation, so that a
  division by zero is a branch of the model.
\<close>

definition truediv :: "rat \<Rightarrow> rat \<Rightarrow> error + rat" where
  "truediv a b = (if b = 0 then Inl ZeroDivisionError else Inr (a / b))"

section \<open>Role inference\<close>

text \<open>\<open>if target\<close> on an \<open>Optional[str]\<close>: neither \<open>None\<close> nor the empty string.\<close>

definition truthy :: "string option \<Rightarrow> bool" where
  "truthy t = (case t of None \<Rightarrow> False | Some s \<Rightarrow> s \<noteq> [])"

definition id_like :: "string \<Rightarrow> bool" where
  "id_like lowered =
     (contains ''id'' lowered \<or> contains ''uuid'' lowered \<or> endswith lowered ''_cd'')"

definition numeric_notes :: "'a series \<Rightarrow> string \<Rightarrow> nota list" where
  "numeric_notes column lowered =
     (let unique_values = nunique column in
        (if unique_values \<le> 1 then [ColunaConstante] else [])
      @ (if unique_values = 2 then [NotaBinaria] else [])
      @ (if contains ''percent'' lowered \<or> contains ''rate'' lowered
         then [VerificarEscalaPercentual] else []))"

definition unique_ratio :: "'a series \<Rightarrow> error + rat" where
  "unique_ratio column =
     truediv (of_nat (nunique_with_na column)) (of_nat (max (len_series column) 1))"

text \<open>
  \<open>infer_role\<close> on a name that is a string, as its signature says. The cells of the
  column are taken to be hashable here, as numbers, strings and booleans are, so that
  \<open>nunique\<close> answers; \<open>summarize_column\<close> below has the branch of a cell that is not.
\<close>

definition infer_role :: "'a series \<Rightarrow> string \<Rightarrow> string option \<Rightarrow> error + (role \<times> nota list)" where
  "infer_role column name target =
     (let lowered = lower name in
      if truthy target \<and> Some name = target then Inr (Target, [])
      else if id_like lowered then Inr (Id, [PossivelIdentificador])
      else if is_datetime64_any_dtype (s_dtype column) then Inr (Datetime, [])
      else if is_numeric_dtype (s_dtype column) then Inr (Numerica, numeric_notes column lowered)
      else if is_bool_dtype (s_dtype column) then Inr (Binaria, [])
      else if is_string_dtype (s_dtype column) \<or> is_categorical_dtype (s_dtype column) then
        (case unique_ratio column of
           Inl e \<Rightarrow> Inl e
         | Inr r \<Rightarrow> Inr (Categorica, if r > 9 / 10 then [AltaCardinalidade] else []))
      else Inr (Desconhecido, []))"

section \<open>Loading and summarising one table\<close>

text \<open>
  A label of \<open>df.columns\<close> is a string or not: \<open>read_excel\<close> gives an integer label for
  a header cell that holds a number (\<open>IntLabel\<close> stands for every label that is not a
  string).
\<close>

datatype label = StrLabel string | IntLabel int

text \<open>
  A \<open>DataFrame\<close>: its number of rows (\<open>len(df)\<close>) and its columns, label and series, in
  the table's order. Each label names one column, so that \<open>df[column_name]\<close> is that
  column's series.
\<close>

record 'a dataframe =
  df_len :: nat
  df_columns :: "(label \<times> 'a series) list"

text \<open>
  What the program asks of pandas, the file system and Python: the four readers (each
  returns a frame or raises), \<open>str\<close> of a cell, whether a cell can be hashed (a list
  cell of a nested Parquet column cannot), \<open>Path.exists\<close>, \<open>Path.is_file\<close>, the paths
  that \<open>data_dir.glob("**/*")\<close> yields, and the exception that \<open>write_text\<close> raises on
  a path, if it raises one.
\<close>

record 'a world =
  read_csv :: "path \<Rightarrow> int option \<Rightarrow> error + 'a dataframe"
  read_parquet :: "path \<Rightarrow> error + 'a dataframe"
  read_feather :: "path \<Rightarrow> error + 'a dataframe"
  read_excel :: "path \<Rightarrow> int option \<Rightarrow> error + 'a dataframe"
  str_of :: "'a \<Rightarrow> string"
  hashable :: "'a \<Rightarrow> bool"
  path_exists :: "path \<Rightarrow> bool"
  path_is_file :: "path \<Rightarrow> bool"
  glob_all :: "path \<Rightarrow> path list"
  write_text :: "path \<Rightarrow> error option"

definition load_table :: "'a world \<Rightarrow> path \<Rightarrow> int option \<Rightarrow> error + 'a dataframe" where
  "load_table w path sample_rows =
     (let suffix = lower (path_suffix path) in
      if suffix = ''.csv'' then read_csv w path sample_rows
      else if suffix = ''.parquet'' then read_parquet w path
      else if suffix = ''.feather'' then read_feather w path
      else if suffix \<in> {''.xlsx'', ''.xls''} then read_excel w path sample_rows
      else Inl (ValueError (''Unsupported file type: '' @ suffix)))"

record ColumnSummary =
  col_name :: string
  col_dtype :: string
  col_role :: role
  non_null_pct :: rat
  unique_values :: int
  example_values :: "string list"
  col_notes :: "nota list"

record TableSummary =
  file_path :: path
  row_count :: int
  column_summaries :: "ColumnSummary list"

text \<open>
  \<open>series.notna().mean()\<close>: the share of the cells that are there. On an empty series
  pandas answers NaN; the model makes that the error branch of the division, which the
  guard \<open>if len(series)\<close> has to exclude.
\<close>

definition notna_mean :: "'a series \<Rightarrow> error + rat" where
  "notna_mean s = truediv (of_nat (length (dropna s))) (of_nat (len_series s))"

definition coverage :: "'a series \<Rightarrow> error + rat" where
  "coverage s =
     (if len_series s \<noteq> 0 then
        (case notna_mean s of Inl e \<Rightarrow> Inl e | Inr m \<Rightarrow> Inr (m * 100))
      else Inr 0)"

text \<open>
  \<open>series.nunique(dropna=False)\<close> and \<open>series.dropna().unique()\<close> as pandas computes
  them, by hashing the cells: a cell that cannot be hashed raises \<open>TypeError\<close>.
\<close>

definition nunique_hashed :: "'a world \<Rightarrow> 'a series \<Rightarrow> error + nat" where
  "nunique_hashed w s =
     (if list_all (hashable w) (dropna s) then Inr (nunique_with_na s) else Inl TypeError)"

definition unique_hashed :: "'a world \<Rightarrow> 'a series \<Rightarrow> error + 'a list" where
  "unique_hashed w s =
     (if list_all (hashable w) (dropna s) then Inr (unique (dropna s)) else Inl TypeError)"

text \<open>
  One turn of the loop over \<open>df.columns\<close>: the role, the coverage, the number of
  distinct values and the examples, each of which can raise. The label goes to
  \<open>infer_role\<close> as it is, whose first statement, \<open>name.lower()\<close>, raises
  \<open>AttributeError\<close> on a label that is not a string. Where a cell cannot be hashed the
  series is not empty, so \<open>nunique\<close> raises the \<open>TypeError\<close> here if it has not done so
  inside \<open>infer_role\<close>: the turn ends in that error either way.
\<close>

definition summarize_column ::
  "'a world \<Rightarrow> string option \<Rightarrow> label \<times> 'a series \<Rightarrow> error + ColumnSummary" where
  "summarize_column w target c =
     (case c of (column_name, series) \<Rightarrow>
        (case column_name of
           IntLabel i \<Rightarrow> Inl AttributeError
         | StrLabel name \<Rightarrow>
             (case infer_role series name target of
                Inl e \<Rightarrow> Inl e
              | Inr (role, notes') \<Rightarrow>
                  (case coverage series of
                     Inl e \<Rightarrow> Inl e
                   | Inr pct \<Rightarrow>
                       (case (if len_series series \<noteq> 0
                              then map_sum id int (nunique_hashed w series) else Inr 0) of
                          Inl e \<Rightarrow> Inl e
                        | Inr n \<Rightarrow>
                            (case unique_hashed w series of
                               Inl e \<Rightarrow> Inl e
                             | Inr values \<Rightarrow>
                                 Inr \<lparr>col_name = name,
                                      col_dtype = dtype_str (s_dtype series),
                                      col_role = role,
                                      non_null_pct = pct,
                                      unique_values = n,
                                      example_values = map (str_of w) (take 3 values),
                                      col_notes = notes'\<rparr>))))))"

text \<open>The loop over \<open>df.columns\<close>; an exception in one column ends it.\<close>

fun summarize_columns ::
  "'a world \<Rightarrow> string option \<Rightarrow> (label \<times> 'a series) list \<Rightarrow> error + ColumnSummary list" where
  "summarize_columns w target [] = Inr []"
| "summarize_columns w target (c # cs) =
     (case summarize_column w target c of
        Inl e \<Rightarrow> Inl e
      | Inr s \<Rightarrow>
          (case summarize_columns w target cs of
             Inl e \<Rightarrow> Inl e
           | Inr ss \<Rightarrow> Inr (s # ss)))"

definition summarize_table ::
  "'a world \<Rightarrow> path \<Rightarrow> string option \<Rightarrow> int option \<Rightarrow> error + TableSummary" where
  "summarize_table w path target sample_rows =
     (case load_table w path sample_rows of
        Inl e \<Rightarrow> Inl e
      | Inr df \<Rightarrow>
          (case summarize_columns w target (df_columns df) of
             Inl e \<Rightarrow> Inl e
           | Inr summaries \<Rightarrow>
               Inr \<lparr>file_path = path, row_count = int (df_len df),
                    column_summaries = summaries\<rparr>))"

section \<open>Scanning, aggregating and reporting\<close>

text \<open>
  \<open>scan_data_dir\<close>: the paths under the directory, sorted (paths compare by their
  components), keeping the files whose lowercased suffix is supported.
\<close>

definition scan_data_dir :: "'a world \<Rightarrow> path \<Rightarrow> path list" where
  "scan_data_dir w data_dir =
     filter (\<lambda>file_path. path_is_file w file_path
                \<and> lower (path_suffix file_path) \<in> SUPPORTED_EXTENSIONS)
       (sort (glob_all w data_dir))"

text \<open>
  The value stored for a key of \<open>modeling_candidates\<close>: the dictionary
  \<open>{"non_null_pct": ..., "unique_values": ..., "role": ...}\<close>.
\<close>

record candidate_info =
  info_non_null_pct :: rat
  info_unique_values :: int
  info_role :: role

definition candidate_key :: "TableSummary \<Rightarrow> ColumnSummary \<Rightarrow> string" where
  "candidate_key table_summary col = path_name (file_path table_summary) @ ''::'' @ col_name col"

definition candidate_info_of :: "ColumnSummary \<Rightarrow> candidate_info" where
  "candidate_info_of col =
     \<lparr>info_non_null_pct = non_null_pct col, info_unique_values = unique_values col,
      info_role = col_role col\<rparr>"

definition eligible :: "ColumnSummary \<Rightarrow> bool" where
  "eligible col = (col_role col \<in> {Numerica, Categorica, Binaria} \<and> non_null_pct col \<ge> 60)"

text \<open>
  \<open>modeling_candidates\<close> is a Python dictionary, which keeps its keys in the order of
  their first insertion: an association list, where an assignment to a key that is there
  replaces its value in place (\<^const>\<open>AList.update\<close>).
\<close>

definition add_candidate ::
  "TableSummary \<Rightarrow> ColumnSummary \<Rightarrow> (string \<times> candidate_info) list
     \<Rightarrow> (string \<times> candidate_info) list" where
  "add_candidate table_summary col modeling_candidates =
     (if eligible col
      then AList.update (candidate_key table_summary col) (candidate_info_of col)
             modeling_candidates
      else modeling_candidates)"

text \<open>
  The parts of the Markdown report, one constructor for each string the program appends
  to \<open>markdown_parts\<close>; the layout of the text inside a part is not modelled.
\<close>

datatype md_part =
    Title
  | TableSection TableSummary
  | CandidatesTitle
  | CandidatesHeader
  | CandidateRow string candidate_info

definition aggregate_step ::
  "TableSummary \<Rightarrow> md_part list \<times> (string \<times> candidate_info) list
     \<Rightarrow> md_part list \<times> (string \<times> candidate_info) list" where
  "aggregate_step table_summary st =
     (case st of (markdown_parts, modeling_candidates) \<Rightarrow>
        (markdown_parts @ [TableSection table_summary],
         fold (add_candidate table_summary) (column_summaries table_summary)
           modeling_candidates))"

definition aggregate ::
  "TableSummary list \<Rightarrow> md_part list \<times> (string \<times> candidate_info) list" where
  "aggregate table_summaries = fold aggregate_step table_summaries ([Title], [])"

text \<open>
  \<open>sorted(modeling_candidates.items(), key=lambda item: (-item[1]["non_null_pct"], item[0]))\<close>:
  a stable sort on the pair of the negated coverage and the key.
\<close>

definition sorted_candidates ::
  "(string \<times> candidate_info) list \<Rightarrow> (string \<times> candidate_info) list" where
  "sorted_candidates modeling_candidates =
     sort_key (\<lambda>item. (- info_non_null_pct (snd item), fst item)) modeling_candidates"

definition modeling_candidate_list ::
  "TableSummary list \<Rightarrow> (string \<times> candidate_info) list" where
  "modeling_candidate_list table_summaries = sorted_candidates (snd (aggregate table_summaries))"

definition markdown_output :: "TableSummary list \<Rightarrow> md_part list" where
  "markdown_output table_summaries =
     (case aggregate table_summaries of (markdown_parts, modeling_candidates) \<Rightarrow>
        if modeling_candidates \<noteq> [] then
          markdown_parts @ [CandidatesTitle, CandidatesHeader]
            @ map (\<lambda>item. CandidateRow (fst item) (snd item))
                (sorted_candidates modeling_candidates)
        else markdown_parts)"

text \<open>The parsed command line (\<open>args\<close>).\<close>

record args =
  args_data_dir :: path
  args_target :: "string option"
  args_sample_rows :: "int option"
  args_output :: "path option"
  args_json_output :: "path option"

text \<open>
  What a run leaves behind: how it ended (\<open>return n\<close>, the \<open>SystemExit(2)\<close> of
  \<open>parser.error\<close>, or an exception that leaves \<open>main\<close>, which ends the process with
  a traceback and the exit code 1), the messages on the standard error, the report on
  the standard output if one was printed, and the files written.
\<close>

datatype exit = Return int | SystemExit int | Raised error

datatype message =
    DataDirMissing path
  | NenhumArquivo
  | FalhaAoLer path error
  | NaoFoiPossivel

datatype document = Markdown "md_part list" | Json "TableSummary list"

record outcome =
  exit_status :: exit
  stderr :: "message list"
  stdout :: "md_part list option"
  written :: "(path \<times> document) list"

text \<open>One turn of the loop over \<open>table_paths\<close>, with its \<open>try\<close> and \<open>except\<close>.\<close>

definition read_step ::
  "'a world \<Rightarrow> args \<Rightarrow> path \<Rightarrow> TableSummary list \<times> message list
     \<Rightarrow> TableSummary list \<times> message list" where
  "read_step w a path st =
     (case st of (table_summaries, err) \<Rightarrow>
        (case summarize_table w path (args_target a) (args_sample_rows a) of
           Inr table_summary \<Rightarrow> (table_summaries @ [table_summary], err)
         | Inl exc \<Rightarrow> (table_summaries, err @ [FalhaAoLer path exc])))"

text \<open>
  \<open>main\<close> from the check of the data directory on. The two \<open>write_text\<close> calls are
  outside every \<open>try\<close>: an exception of the first leaves \<open>main\<close> before the second is
  tried, and after the report has been printed.
\<close>

definition main :: "'a world \<Rightarrow> args \<Rightarrow> outcome" where
  "main w a =
     (if \<not> path_exists w (args_data_dir a) then
        \<lparr>exit_status = SystemExit 2, stderr = [DataDirMissing (args_data_dir a)],
         stdout = None, written = []\<rparr>
      else
        let table_paths = scan_data_dir w (args_data_dir a) in
        if table_paths = [] then
          \<lparr>exit_status = Return 1, stderr = [NenhumArquivo], stdout = None, written = []\<rparr>
        else
          (case fold (read_step w a) table_paths ([], []) of
             (table_summaries, err) \<Rightarrow>
               if table_summaries = [] then
                 \<lparr>exit_status = Return 1, stderr = err @ [NaoFoiPossivel],
                  stdout = None, written = []\<rparr>
               else
                 let md = markdown_output table_summaries in
                 (case (case args_output a of None \<Rightarrow> None | Some p \<Rightarrow> write_text w p) of
                    Some exc \<Rightarrow>
                      \<lparr>exit_status = Raised exc, stderr = err, stdout = Some md,
                       written = []\<rparr>
                  | None \<Rightarrow>
                      let files = (case args_output a of
                                     None \<Rightarrow> []
                                   | Some p \<Rightarrow> [(p, Markdown md)]) in
                      (case (case args_json_output a of
                               None \<Rightarrow> None
                             | Some p \<Rightarrow> write_text w p) of
                         Some exc \<Rightarrow>
                           \<lparr>exit_status = Raised exc, stderr = err, stdout = Some md,
                            written = files\<rparr>
                       | None \<Rightarrow>
                           \<lparr>exit_status = Return 0, stderr = err, stdout = Some md,
                            written =
                              files @ (case args_json_output a of
                                         None \<Rightarrow> []
                                       | Some p \<Rightarrow> [(p, Json table_summaries)])\<rparr>))))"

section \<open>Notions used to state the properties\<close>

text \<open>
  The columns of a list of table summaries, each with its key, in the order in which
  \<open>main\<close> visits them.
\<close>

definition keyed_columns :: "TableSummary list \<Rightarrow> (string \<times> ColumnSummary) list" where
  "keyed_columns table_summaries =
     concat (map (\<lambda>ts. map (\<lambda>col. (candidate_key ts col, col)) (column_summaries ts))
       table_summaries)"

definition put_candidate ::
  "string \<times> ColumnSummary \<Rightarrow> (string \<times> candidate_info) list
     \<Rightarrow> (string \<times> candidate_info) list" where
  "put_candidate kc d =
     (if eligible (snd kc) then AList.update (fst kc) (candidate_info_of (snd kc)) d else d)"

definition is_str :: "label \<Rightarrow> bool" where
  "is_str l = (case l of StrLabel name \<Rightarrow> True | IntLabel i \<Rightarrow> False)"

text \<open>
  A column that \<open>summarize_column\<close> has no reason to refuse: its label is a string and
  its cells can be hashed.
\<close>

definition plain_column :: "'a world \<Rightarrow> label \<times> 'a series \<Rightarrow> bool" where
  "plain_column w c =
     (case fst c of
        StrLabel name \<Rightarrow> list_all (hashable w) (dropna (snd c))
      | IntLabel i \<Rightarrow> False)"

text \<open>
  What \<open>main\<close> gets for one path, the scanned paths of a run for which it gets an
  exception and those for which it gets a summary, and the exception of the first
  \<open>write_text\<close> that raises, if one does.
\<close>

definition summary_of :: "'a world \<Rightarrow> args \<Rightarrow> path \<Rightarrow> error + TableSummary" where
  "summary_of w a p = summarize_table w p (args_target a) (args_sample_rows a)"

definition summary_fails :: "'a world \<Rightarrow> args \<Rightarrow> path \<Rightarrow> bool" where
  "summary_fails w a p = isl (summary_of w a p)"

definition failed_paths :: "'a world \<Rightarrow> args \<Rightarrow> path list" where
  "failed_paths w a = filter (summary_fails w a) (scan_data_dir w (args_data_dir a))"

definition summarized_paths :: "'a world \<Rightarrow> args \<Rightarrow> path list" where
  "summarized_paths w a =
     filter (\<lambda>p. \<not> summary_fails w a p) (scan_data_dir w (args_data_dir a))"

definition write_failure :: "'a world \<Rightarrow> args \<Rightarrow> error option" where
  "write_failure w a =
     (case (case args_output a of None \<Rightarrow> None | Some p \<Rightarrow> write_text w p) of
        Some exc \<Rightarrow> Some exc
      | None \<Rightarrow> (case args_json_output a of None \<Rightarrow> None | Some p \<Rightarrow> write_text w p))"

section \<open>Example inputs\<close>

text \<open>Cells of the example tables, with Python's \<open>str\<close> of each.\<close>

datatype cell = IntCell int | StrCell string | BoolCell bool

fun digits :: "nat \<Rightarrow> string" where
  "digits n =
     (if n < 10 then [''0123456789'' ! n]
      else digits (n div 10) @ [''0123456789'' ! (n mod 10)])"

definition str_cell :: "cell \<Rightarrow> string" where
  "str_cell c =
     (case c of
        IntCell i \<Rightarrow> (if i < 0 then ''-'' else []) @ digits (nat \<bar>i\<bar>)
      | StrCell s \<Rightarrow> s
      | BoolCell b \<Rightarrow> (if b then ''True'' else ''False''))"

definition two_valued_id_column :: "cell series" where
  "two_valued_id_column =
     \<lparr>s_dtype = int64_dtype, s_values = [Some (IntCell 0), Some (IntCell 1), Some (IntCell 0), None]\<rparr>"

definition unique_text_column :: "cell series" where
  "unique_text_column =
     \<lparr>s_dtype = object_dtype,
      s_values = [Some (StrCell ''a1''), Some (StrCell ''b2''), Some (StrCell ''c3'')]\<rparr>"

definition flag_column :: "cell series" where
  "flag_column =
     \<lparr>s_dtype = bool_dtype,
      s_values = [Some (BoolCell True), Some (BoolCell False), Some (BoolCell True)]\<rparr>"

definition churn_frame :: "cell dataframe" where
  "churn_frame = \<lparr>df_len = 4, df_columns =
     [(StrLabel ''user_id'',
         \<lparr>s_dtype = int64_dtype, s_values = map (Some \<circ> IntCell) [1, 2, 3, 4]\<rparr>),
      (StrLabel ''signup_date'',
         \<lparr>s_dtype = datetime64_dtype,
          s_values = map (Some \<circ> StrCell)
            [''2024-01-01'', ''2024-01-02'', ''2024-01-02'', ''2024-01-05'']\<rparr>),
      (StrLabel ''plan'',
         \<lparr>s_dtype = object_dtype,
          s_values = map (Some \<circ> StrCell) [''free'', ''pro'', ''team'', ''free'']\<rparr>),
      (StrLabel ''churned'',
         \<lparr>s_dtype = int64_dtype, s_values = map (Some \<circ> IntCell) [0, 1, 0, 0]\<rparr>)]\<rparr>"

definition empty_frame :: "cell dataframe" where
  "empty_frame = \<lparr>df_len = 0, df_columns =
     [(StrLabel ''label'', \<lparr>s_dtype = object_dtype, s_values = []\<rparr>),
      (StrLabel ''amount'', \<lparr>s_dtype = int64_dtype, s_values = []\<rparr>)]\<rparr>"

text \<open>
  A directory \<open>data\<close> with a CSV file whose extension is in capitals, an empty CSV
  file, a Parquet file that cannot be read and a text file.
\<close>

definition demo_world :: "cell world" where
  "demo_world = \<lparr>
     read_csv = (\<lambda>p n. if p = [''data'', ''churn.CSV''] then Inr churn_frame
                        else if p = [''data'', ''empty.csv''] then Inr empty_frame
                        else Inl (ReadError ''No such file or directory'')),
     read_parquet = (\<lambda>p. Inl (ReadError ''Could not open Parquet input source'')),
     read_feather = (\<lambda>p. Inl (ReadError ''Not a Feather file'')),
     read_excel = (\<lambda>p n. Inl (ReadError ''Excel file format cannot be determined'')),
     str_of = str_cell,
     hashable = (\<lambda>c. True),
     path_exists = (\<lambda>p. p = [''data'']),
     path_is_file = (\<lambda>p. p \<in> {[''data'', ''churn.CSV''], [''data'', ''empty.csv''],
                                [''data'', ''broken.parquet''], [''data'', ''notes.txt'']}),
     glob_all = (\<lambda>p. if p = [''data'']
                      then [[''data'', ''notes.txt''], [''data'', ''empty.csv''],
                            [''data'', ''churn.CSV''], [''data'', ''broken.parquet'']]
                      else []),
     write_text = (\<lambda>p. None)\<rparr>"

definition demo_args :: args where
  "demo_args = \<lparr>args_data_dir = [''data''], args_target = Some ''churned'',
     args_sample_rows = None, args_output = Some [''out'', ''report.md''],
     args_json_output = None\<rparr>"

text \<open>The same command line on a data directory that is not there.\<close>

definition missing_dir_args :: args where
  "missing_dir_args = \<lparr>args_data_dir = [''nowhere''], args_target = Some ''churned'',
     args_sample_rows = None, args_output = Some [''out'', ''report.md''],
     args_json_output = None\<rparr>"

text \<open>
  A directory \<open>budgets\<close> with one Excel sheet whose header row is \<open>item\<close>, 2023, 2024:
  \<open>read_excel\<close> reads it and labels the last two columns with the integers.
\<close>

definition budget_frame :: "cell dataframe" where
  "budget_frame = \<lparr>df_len = 2, df_columns =
     [(StrLabel ''item'',
         \<lparr>s_dtype = object_dtype, s_values = map (Some \<circ> StrCell) [''rent'', ''salaries'']\<rparr>),
      (IntLabel 2023,
         \<lparr>s_dtype = int64_dtype, s_values = map (Some \<circ> IntCell) [1200, 5400]\<rparr>),
      (IntLabel 2024,
         \<lparr>s_dtype = int64_dtype, s_values = map (Some \<circ> IntCell) [1250, 5600]\<rparr>)]\<rparr>"

definition budget_world :: "cell world" where
  "budget_world = \<lparr>
     read_csv = (\<lambda>p n. Inl (ReadError ''No such file or directory'')),
     read_parquet = (\<lambda>p. Inl (ReadError ''Could not open Parquet input source'')),
     read_feather = (\<lambda>p. Inl (ReadError ''Not a Feather file'')),
     read_excel = (\<lambda>p n. if p = [''budgets'', ''plan.xlsx''] then Inr budget_frame
                          else Inl (ReadError ''No such file or directory'')),
     str_of = str_cell,
     hashable = (\<lambda>c. True),
     path_exists = (\<lambda>p. p = [''budgets'']),
     path_is_file = (\<lambda>p. p = [''budgets'', ''plan.xlsx'']),
     glob_all = (\<lambda>p. if p = [''budgets''] then [[''budgets'', ''plan.xlsx'']] else []),
     write_text = (\<lambda>p. None)\<rparr>"

definition budget_args :: args where
  "budget_args = \<lparr>args_data_dir = [''budgets''], args_target = None,
     args_sample_rows = None, args_output = None, args_json_output = None\<rparr>"

text \<open>
  Two files of the same name in two subdirectories, as the recursive scan finds them,
  each with a column \<open>amount\<close>.
\<close>

definition amount_2023 :: ColumnSummary where
  "amount_2023 = \<lparr>col_name = ''amount'', col_dtype = ''float64'', col_role = Numerica,
     non_null_pct = 100, unique_values = 4, example_values = [''1.5'', ''2.0'', ''3.25''],
     col_notes = []\<rparr>"

definition amount_2024 :: ColumnSummary where
  "amount_2024 = \<lparr>col_name = ''amount'', col_dtype = ''float64'', col_role = Numerica,
     non_null_pct = 75, unique_values = 3, example_values = [''4.0'', ''5.5'', ''6.0''],
     col_notes = []\<rparr>"

definition sales_2023 :: TableSummary where
  "sales_2023 = \<lparr>file_path = [''data'', ''2023'', ''sales.csv''], row_count = 4,
     column_summaries = [amount_2023]\<rparr>"

definition sales_2024 :: TableSummary where
  "sales_2024 = \<lparr>file_path = [''data'', ''2024'', ''sales.csv''], row_count = 4,
     column_summaries = [amount_2024]\<rparr>"

section \<open>Role inference: the order of the rules\<close>

lemma unique_ratio_eq:
  "unique_ratio column
     = Inr (of_nat (nunique_with_na column) / of_nat (max (len_series column) 1))"
  by (simp add: unique_ratio_def truediv_def)

lemma infer_role_total: "\<exists>r ns. infer_role column name target = Inr (r, ns)"
  by (simp add: infer_role_def unique_ratio_eq Let_def)

text \<open>
  C1. When a designated target is set (a non-empty string) and equals the column name
  exactly, \<open>infer_role\<close> answers role target with no notes, whatever the name looks like
  and whatever the dtype and the values of the column are.
\<close>

theorem infer_role_target_first:
  assumes "target = Some name" and "name \<noteq> []"
  shows "infer_role column name target = Inr (Target, [])"
  using assms by (simp add: infer_role_def truthy_def)

theorem infer_role_target_first_witness:
  "Some ''user_id'' = Some ''user_id'' \<and> ''user_id'' \<noteq> []
   \<and> infer_role two_valued_id_column ''user_id'' (Some ''user_id'') = Inr (Target, [])"
proof -
  have h: "''user_id'' \<noteq> []" by simp
  show ?thesis
    using h infer_role_target_first [OF refl h, of two_valued_id_column] by simp
qed

text \<open>
  C3, as stated: every numeric column with exactly two distinct non-missing values
  carries the note \<open>binaria\<close>, whatever its name. It fails on a name that contains
  \<open>id\<close>: the identifier rule answers first, and the only note is that of the identifier.
\<close>

theorem binary_note_counterexample:
  "is_numeric_dtype (s_dtype two_valued_id_column)
   \<and> nunique two_valued_id_column = 2
   \<and> infer_role two_valued_id_column ''user_id'' None = Inr (Id, [PossivelIdentificador])
   \<and> NotaBinaria \<notin> set [PossivelIdentificador]"
  by (simp add: two_valued_id_column_def int64_dtype_def nunique_def unique_def dropna_def
      infer_role_def truthy_def id_like_def lower_def lower_char_def)

text \<open>
  C3, amended: a numeric column (one that pandas does not take for a datetime column,
  as is the case of every numeric dtype) with exactly two distinct non-missing values,
  whose name is not the designated target and whose lowercased name neither contains
  \<open>id\<close> nor ends with \<open>_cd\<close>, gets role \<open>numerica\<close> and carries the note \<open>binaria\<close>.
\<close>

theorem numeric_two_values_binary_note:
  assumes "is_numeric_dtype (s_dtype column)"
    and "\<not> is_datetime64_any_dtype (s_dtype column)"
    and "nunique column = 2"
    and "\<not> (truthy target \<and> Some name = target)"
    and "\<not> id_like (lower name)"
  shows "\<exists>ns. infer_role column name target = Inr (Numerica, ns) \<and> NotaBinaria \<in> set ns"
  using assms by (simp add: infer_role_def numeric_notes_def Let_def)

theorem numeric_two_values_binary_note_witness:
  "is_numeric_dtype (s_dtype two_valued_id_column)
   \<and> \<not> is_datetime64_any_dtype (s_dtype two_valued_id_column)
   \<and> nunique two_valued_id_column = 2
   \<and> \<not> (truthy (Some ''label'') \<and> Some ''churn_rate'' = Some ''label'')
   \<and> \<not> id_like (lower ''churn_rate'')
   \<and> (\<exists>ns. infer_role two_valued_id_column ''churn_rate'' (Some ''label'') = Inr (Numerica, ns)
          \<and> NotaBinaria \<in> set ns)"
proof -
  have h1: "is_numeric_dtype (s_dtype two_valued_id_column)"
    and h2: "\<not> is_datetime64_any_dtype (s_dtype two_valued_id_column)"
    by (simp_all add: two_valued_id_column_def int64_dtype_def)
  have h3: "nunique two_valued_id_column = 2"
    by (simp add: two_valued_id_column_def nunique_def unique_def dropna_def)
  have h4: "\<not> (truthy (Some ''label'') \<and> Some ''churn_rate'' = Some ''label'')"
    by simp
  have h5: "\<not> id_like (lower ''churn_rate'')"
    by (simp add: id_like_def lower_def lower_char_def endswith_def)
  show ?thesis
    using h1 h2 h3 h4 h5 numeric_two_values_binary_note [OF h1 h2 h3 h4 h5] by blast
qed

text \<open>
  C4, as stated: every string or categorical column whose number of distinct values
  (the missing one counted), divided by the number of rows, is above 0.9 carries the note
  \<open>alta cardinalidade\<close> and gets role \<open>categorica\<close>. It fails on a column of three
  distinct strings named \<open>order_id\<close>: the identifier rule answers first.
\<close>

theorem high_cardinality_counterexample:
  "is_string_dtype (s_dtype unique_text_column)
   \<and> (of_nat (nunique_with_na unique_text_column) / of_nat (len_series unique_text_column)
        :: rat) > 9 / 10
   \<and> infer_role unique_text_column ''order_id'' None = Inr (Id, [PossivelIdentificador])"
  by (simp add: unique_text_column_def object_dtype_def nunique_with_na_def unique_def
      len_series_def infer_role_def truthy_def id_like_def lower_def lower_char_def)

text \<open>
  C4, amended: a string or categorical column that pandas takes for neither a datetime,
  a numeric nor a boolean column (as is the case of every string column), whose name is
  not the designated target and whose lowercased name neither contains \<open>id\<close> nor ends
  with \<open>_cd\<close>, and whose number of distinct values (the missing one counted) divided by
  the number of rows (0 if there are no rows) is above 0.9, gets role \<open>categorica\<close> and
  the note \<open>alta cardinalidade\<close>.
\<close>

theorem text_high_cardinality_note:
  assumes "is_string_dtype (s_dtype column) \<or> is_categorical_dtype (s_dtype column)"
    and "\<not> is_datetime64_any_dtype (s_dtype column)"
    and "\<not> is_numeric_dtype (s_dtype column)"
    and "\<not> is_bool_dtype (s_dtype column)"
    and "\<not> (truthy target \<and> Some name = target)"
    and "\<not> id_like (lower name)"
    and "(if len_series column = 0 then 0
          else of_nat (nunique_with_na column) / of_nat (len_series column)) > (9 / 10 :: rat)"
  shows "infer_role column name target = Inr (Categorica, [AltaCardinalidade])"
proof -
  have "len_series column \<noteq> 0"
    using assms(7) by (auto split: if_splits)
  then have "max (len_series column) 1 = len_series column"
    by simp
  then have "unique_ratio column
      = Inr (of_nat (nunique_with_na column) / of_nat (len_series column))"
    by (simp add: unique_ratio_eq)
  moreover have "(of_nat (nunique_with_na column) / of_nat (len_series column) :: rat) > 9 / 10"
    using assms(7) \<open>len_series column \<noteq> 0\<close> by simp
  ultimately show ?thesis
    using assms(1-6) by (simp add: infer_role_def Let_def)
qed

theorem text_high_cardinality_note_witness:
  "(is_string_dtype (s_dtype unique_text_column)
      \<or> is_categorical_dtype (s_dtype unique_text_column))
   \<and> \<not> is_datetime64_any_dtype (s_dtype unique_text_column)
   \<and> \<not> is_numeric_dtype (s_dtype unique_text_column)
   \<and> \<not> is_bool_dtype (s_dtype unique_text_column)
   \<and> \<not> (truthy None \<and> Some ''email'' = None)
   \<and> \<not> id_like (lower ''email'')
   \<and> (if len_series unique_text_column = 0 then 0
        else of_nat (nunique_with_na unique_text_column)
               / of_nat (len_series unique_text_column)) > (9 / 10 :: rat)
   \<and> infer_role unique_text_column ''email'' None = Inr (Categorica, [AltaCardinalidade])"
proof -
  have h1: "is_string_dtype (s_dtype unique_text_column)
      \<or> is_categorical_dtype (s_dtype unique_text_column)"
    and h2: "\<not> is_datetime64_any_dtype (s_dtype unique_text_column)"
    and h3: "\<not> is_numeric_dtype (s_dtype unique_text_column)"
    and h4: "\<not> is_bool_dtype (s_dtype unique_text_column)"
    by (simp_all add: unique_text_column_def object_dtype_def)
  have h5: "\<not> (truthy None \<and> Some ''email'' = None)"
    by simp
  have h6: "\<not> id_like (lower ''email'')"
    by (simp add: id_like_def lower_def lower_char_def endswith_def)
  have h7: "(if len_series unique_text_column = 0 then 0
       else of_nat (nunique_with_na unique_text_column)
              / of_nat (len_series unique_text_column)) > (9 / 10 :: rat)"
    by (simp add: unique_text_column_def nunique_with_na_def unique_def len_series_def)
  show ?thesis
    using h1 h2 h3 h4 h5 h6 h7 text_high_cardinality_note [OF h1 h2 h3 h4 h5 h6 h7]
    by blast
qed

text \<open>
  C5. A column of dtype \<open>bool\<close> named \<open>churned\<close>, with no target designated: the name
  is no identifier and the dtype is no datetime, so the claim expects role \<open>binaria\<close>
  and no notes. pandas takes \<open>bool\<close> for a numeric dtype, so the numeric rule, which
  comes first, answers: role \<open>numerica\<close>, with the note \<open>binaria\<close>.
\<close>

theorem bool_column_gets_numeric_role:
  "is_bool_dtype (s_dtype flag_column)
   \<and> \<not> id_like (lower ''churned'')
   \<and> \<not> is_datetime64_any_dtype (s_dtype flag_column)
   \<and> infer_role flag_column ''churned'' None = Inr (Numerica, [NotaBinaria])"
  by (simp add: flag_column_def bool_dtype_def nunique_def unique_def dropna_def
      numeric_notes_def infer_role_def truthy_def id_like_def lower_def lower_char_def
      endswith_def)

text \<open>
  C9. An empty designated target counts as none: \<open>infer_role\<close> answers as it does
  without a target, for every column name; in particular the column named by the empty
  string does not get role target, and with no target no column does.
\<close>

theorem empty_target_is_no_target:
  "infer_role column name (Some []) = infer_role column name None
   \<and> infer_role column [] (Some []) \<noteq> Inr (Target, ns)
   \<and> infer_role column name None \<noteq> Inr (Target, ns)"
  by (simp add: infer_role_def truthy_def Let_def unique_ratio_eq)

section \<open>Summaries never divide by zero\<close>

lemma coverage_eq:
  "coverage s
     = Inr (if len_series s \<noteq> 0
            then of_nat (length (dropna s)) / of_nat (len_series s) * 100 else 0)"
  by (simp add: coverage_def notna_mean_def truediv_def)

lemma unhashable_not_empty:
  "\<not> list_all P (dropna s) \<Longrightarrow> len_series s \<noteq> 0"
  by (auto simp: dropna_def len_series_def)

lemma summarize_column_int:
  "summarize_column w target (IntLabel i, s) = Inl AttributeError"
  by (simp add: summarize_column_def)

lemma summarize_column_str:
  "\<exists>r ns. infer_role s n target = Inr (r, ns)
     \<and> summarize_column w target (StrLabel n, s) =
         (if list_all (hashable w) (dropna s) then
            Inr \<lparr>col_name = n, col_dtype = dtype_str (s_dtype s), col_role = r,
                 non_null_pct =
                   (if len_series s \<noteq> 0
                    then of_nat (length (dropna s)) / of_nat (len_series s) * 100 else 0),
                 unique_values = (if len_series s \<noteq> 0 then int (nunique_with_na s) else 0),
                 example_values = map (str_of w) (take 3 (unique (dropna s))),
                 col_notes = ns\<rparr>
          else Inl TypeError)"
proof -
  obtain r ns where r: "infer_role s n target = Inr (r, ns)"
    using infer_role_total by blast
  show ?thesis
  proof (cases "list_all (hashable w) (dropna s)")
    case True
    then show ?thesis
      by (simp add: r summarize_column_def coverage_eq nunique_hashed_def unique_hashed_def)
  next
    case False
    then have "len_series s \<noteq> 0"
      by (rule unhashable_not_empty)
    with False show ?thesis
      by (simp add: r summarize_column_def coverage_eq nunique_hashed_def)
  qed
qed

lemma summarize_column_error:
  assumes "summarize_column w target c = Inl e"
  shows "e = AttributeError \<and> \<not> is_str (fst c)
       \<or> e = TypeError \<and> is_str (fst c) \<and> \<not> list_all (hashable w) (dropna (snd c))"
proof -
  obtain l s where c: "c = (l, s)" by (cases c)
  show ?thesis
  proof (cases l)
    case (IntLabel i)
    with assms c show ?thesis
      by (simp add: summarize_column_int is_str_def)
  next
    case (StrLabel n)
    with assms c summarize_column_str [of s n target w] show ?thesis
      by (auto simp: is_str_def split: if_splits)
  qed
qed

lemma summarize_column_plain:
  assumes "plain_column w c"
  shows "\<exists>cs. summarize_column w target c = Inr cs"
proof -
  obtain l s where c: "c = (l, s)" by (cases c)
  from assms c obtain n where l: "l = StrLabel n" and h: "list_all (hashable w) (dropna s)"
    by (cases l) (simp_all add: plain_column_def)
  show ?thesis
    using summarize_column_str [of s n target w] h by (auto simp: c l)
qed

lemma summarize_column_ok:
  assumes "summarize_column w target c = Inr cs"
  shows "coverage (snd c) = Inr (non_null_pct cs)
       \<and> unique_values cs
           = (if len_series (snd c) \<noteq> 0 then int (nunique_with_na (snd c)) else 0)
       \<and> plain_column w c"
proof -
  obtain l s where c: "c = (l, s)" by (cases c)
  show ?thesis
  proof (cases l)
    case (IntLabel i)
    with assms c show ?thesis
      by (simp add: summarize_column_int)
  next
    case (StrLabel n)
    with assms c summarize_column_str [of s n target w] show ?thesis
      by (auto simp: coverage_eq plain_column_def split: if_splits)
  qed
qed

lemma summarize_columns_error:
  "summarize_columns w target cs = Inl e
     \<Longrightarrow> \<exists>c\<in>set cs. summarize_column w target c = Inl e"
  by (induction cs) (auto split: sum.splits)

lemma summarize_columns_plain:
  "list_all (plain_column w) cs \<Longrightarrow> \<exists>ss. summarize_columns w target cs = Inr ss"
proof (induction cs)
  case Nil
  show ?case by simp
next
  case (Cons c cs)
  then obtain s ss where "summarize_column w target c = Inr s"
    and "summarize_columns w target cs = Inr ss"
    using summarize_column_plain [of w c target] by auto
  then show ?case by simp
qed

lemma summarize_columns_ok:
  "summarize_columns w target cs = Inr ss
     \<Longrightarrow> length ss = length cs
         \<and> (\<forall>s\<in>set ss. \<exists>c\<in>set cs. summarize_column w target c = Inr s)"
  by (induction cs arbitrary: ss) (auto split: sum.splits)

lemma summarize_table_error:
  "summarize_table w path target sample_rows = Inl e
     \<longleftrightarrow> load_table w path sample_rows = Inl e
         \<or> (\<exists>df. load_table w path sample_rows = Inr df
               \<and> summarize_columns w target (df_columns df) = Inl e)"
  by (auto simp: summarize_table_def split: sum.splits)

lemma summarize_table_ok:
  "summarize_table w path target sample_rows = Inr ts
     \<longleftrightarrow> (\<exists>df ss. load_table w path sample_rows = Inr df
               \<and> summarize_columns w target (df_columns df) = Inr ss
               \<and> ts = \<lparr>file_path = path, row_count = int (df_len df),
                         column_summaries = ss\<rparr>)"
  by (auto simp: summarize_table_def split: sum.splits)

lemma empty_column_ratio:
  assumes "len_series s = 0"
  shows "unique_ratio s = Inr 0"
  using assms by (simp add: unique_ratio_eq nunique_with_na_def len_series_def unique_def)

text \<open>
  C6. For a table that loads with no rows, every column having as many cells as the
  table has rows: for each column the coverage and the distinct ratio are computed,
  both 0; the summary of the table does not end in a division by zero; a summary that
  is produced has row count 0, one column summary for each column and, in each,
  coverage 0 and 0 distinct values; and it is produced when the labels of the columns
  are strings. No division by zero happens on any other column either: the coverage,
  the distinct ratio and the role inference never end in an error, and the column
  summary never ends in a division by zero, whatever the series.
\<close>

theorem zero_rows_no_division_by_zero:
  assumes "load_table w path sample_rows = Inr df"
    and "df_len df = 0"
    and "\<forall>c\<in>set (df_columns df). len_series (snd c) = df_len df"
  shows "(\<forall>c\<in>set (df_columns df). coverage (snd c) = Inr 0 \<and> unique_ratio (snd c) = Inr 0)
       \<and> summarize_table w path target sample_rows \<noteq> Inl ZeroDivisionError
       \<and> (\<forall>ts. summarize_table w path target sample_rows = Inr ts
            \<longrightarrow> row_count ts = 0
                \<and> length (column_summaries ts) = length (df_columns df)
                \<and> (\<forall>cs\<in>set (column_summaries ts).
                      non_null_pct cs = 0 \<and> unique_values cs = 0))
       \<and> (list_all (\<lambda>c. is_str (fst c)) (df_columns df)
            \<longrightarrow> (\<exists>ts. summarize_table w path target sample_rows = Inr ts))
       \<and> coverage s \<noteq> Inl e
       \<and> unique_ratio s \<noteq> Inl e
       \<and> infer_role s name target \<noteq> Inl e
       \<and> summarize_column w target c \<noteq> Inl ZeroDivisionError"
proof -
  have empty: "len_series (snd c) = 0" if "c \<in> set (df_columns df)" for c
    using assms(2,3) that by simp
  have cols: "\<forall>c\<in>set (df_columns df). coverage (snd c) = Inr 0 \<and> unique_ratio (snd c) = Inr 0"
    using empty by (simp add: coverage_eq empty_column_ratio)
  have nz: "summarize_table w path target sample_rows \<noteq> Inl ZeroDivisionError"
  proof
    assume "summarize_table w path target sample_rows = Inl ZeroDivisionError"
    then have "summarize_columns w target (df_columns df) = Inl ZeroDivisionError"
      by (simp add: summarize_table_error assms(1))
    then obtain c where "summarize_column w target c = Inl ZeroDivisionError"
      using summarize_columns_error by blast
    then show False
      using summarize_column_error by fastforce
  qed
  have res: "row_count ts = 0
      \<and> length (column_summaries ts) = length (df_columns df)
      \<and> (\<forall>cs\<in>set (column_summaries ts). non_null_pct cs = 0 \<and> unique_values cs = 0)"
    if "summarize_table w path target sample_rows = Inr ts" for ts
  proof -
    from that obtain ss where ss: "summarize_columns w target (df_columns df) = Inr ss"
      and ts: "ts = \<lparr>file_path = path, row_count = int (df_len df), column_summaries = ss\<rparr>"
      by (auto simp: summarize_table_ok assms(1))
    have l2: "length ss = length (df_columns df)
        \<and> (\<forall>s\<in>set ss. \<exists>c\<in>set (df_columns df). summarize_column w target c = Inr s)"
      using ss by (rule summarize_columns_ok)
    have "non_null_pct cs = 0 \<and> unique_values cs = 0" if "cs \<in> set ss" for cs
    proof -
      from that l2 obtain c where c: "c \<in> set (df_columns df)"
        and ok: "summarize_column w target c = Inr cs"
        by blast
      from summarize_column_ok [OF ok] empty [OF c] show ?thesis
        by (simp add: coverage_eq)
    qed
    then show ?thesis
      using l2 by (simp add: ts assms(2))
  qed
  have prod: "\<exists>ts. summarize_table w path target sample_rows = Inr ts"
    if "list_all (\<lambda>c. is_str (fst c)) (df_columns df)"
  proof -
    have "plain_column w c" if "c \<in> set (df_columns df)" for c
    proof -
      have "is_str (fst c)"
        using that \<open>list_all (\<lambda>c. is_str (fst c)) (df_columns df)\<close>
        by (simp add: list_all_iff)
      moreover have "dropna (snd c) = []"
        using empty [OF that] by (simp add: len_series_def dropna_def)
      ultimately show ?thesis
        by (cases "fst c") (simp_all add: plain_column_def is_str_def)
    qed
    then have "list_all (plain_column w) (df_columns df)"
      by (simp add: list_all_iff)
    then obtain ss where "summarize_columns w target (df_columns df) = Inr ss"
      using summarize_columns_plain by blast
    then show ?thesis
      by (simp add: summarize_table_def assms(1))
  qed
  have d1: "coverage s \<noteq> Inl e"
    by (simp add: coverage_eq)
  have d2: "unique_ratio s \<noteq> Inl e"
    by (simp add: unique_ratio_eq)
  have d3: "infer_role s name target \<noteq> Inl e"
    using infer_role_total [of s name target] by auto
  have d4: "summarize_column w target c \<noteq> Inl ZeroDivisionError"
    using summarize_column_error [of w target c ZeroDivisionError] by auto
  show ?thesis
    using cols nz res prod d1 d2 d3 d4 by blast
qed

theorem zero_rows_no_division_by_zero_witness:
  "load_table demo_world [''data'', ''empty.csv''] None = Inr empty_frame
   \<and> df_len empty_frame = 0
   \<and> list_all (\<lambda>c. is_str (fst c)) (df_columns empty_frame)
   \<and> (\<exists>ts. summarize_table demo_world [''data'', ''empty.csv''] None None = Inr ts
          \<and> row_count ts = 0
          \<and> length (column_summaries ts) = length (df_columns empty_frame)
          \<and> (\<forall>cs\<in>set (column_summaries ts). non_null_pct cs = 0 \<and> unique_values cs = 0))
   \<and> (StrLabel ''label'', \<lparr>s_dtype = object_dtype, s_values = []\<rparr>)
        \<in> set (df_columns empty_frame)
   \<and> coverage \<lparr>s_dtype = object_dtype, s_values = ([] :: cell option list)\<rparr> = Inr 0
   \<and> unique_ratio \<lparr>s_dtype = object_dtype, s_values = ([] :: cell option list)\<rparr> = Inr 0"
proof -
  have h1: "load_table demo_world [''data'', ''empty.csv''] None = Inr empty_frame"
    by (simp add: load_table_def demo_world_def path_suffix_def path_name_def rfind_def
        lower_def lower_char_def)
  have h2: "df_len empty_frame = 0"
    by (simp add: empty_frame_def)
  have h3: "\<forall>c\<in>set (df_columns empty_frame). len_series (snd c) = df_len empty_frame"
    by (simp add: empty_frame_def len_series_def)
  have h4: "list_all (\<lambda>c. is_str (fst c)) (df_columns empty_frame)"
    by (simp add: empty_frame_def is_str_def)
  have m: "(StrLabel ''label'', \<lparr>s_dtype = object_dtype, s_values = []\<rparr>)
      \<in> set (df_columns empty_frame)"
    by (simp add: empty_frame_def)
  note t = zero_rows_no_division_by_zero [OF h1 h2 h3, of None]
  have "coverage (snd (StrLabel ''label'',
            \<lparr>s_dtype = object_dtype, s_values = ([] :: cell option list)\<rparr>)) = Inr 0
      \<and> unique_ratio (snd (StrLabel ''label'',
            \<lparr>s_dtype = object_dtype, s_values = ([] :: cell option list)\<rparr>)) = Inr 0"
    using t m by blast
  moreover have "\<exists>ts. summarize_table demo_world [''data'', ''empty.csv''] None None = Inr ts
          \<and> row_count ts = 0
          \<and> length (column_summaries ts) = length (df_columns empty_frame)
          \<and> (\<forall>cs\<in>set (column_summaries ts). non_null_pct cs = 0 \<and> unique_values cs = 0)"
    using t h4 by blast
  ultimately show ?thesis
    using h1 h2 h4 m by simp
qed

section \<open>Loading by extension\<close>



lemma budget_load:
  "load_table budget_world [''budgets'', ''plan.xlsx''] None = Inr budget_frame"
  by (simp add: load_table_def budget_world_def path_suffix_def path_name_def rfind_def
      lower_def lower_char_def)

lemma budget_summary:
  "summarize_table budget_world [''budgets'', ''plan.xlsx''] None None = Inl AttributeError"
proof -
  have "summarize_column budget_world None (StrLabel ''item'',
      \<lparr>s_dtype = object_dtype, s_values = map (Some \<circ> StrCell) [''rent'', ''salaries'']\<rparr>)
      \<noteq> Inl e" for e
    using summarize_column_plain [of budget_world "(StrLabel ''item'',
      \<lparr>s_dtype = object_dtype, s_values = map (Some \<circ> StrCell) [''rent'', ''salaries'']\<rparr>)"
      None]
    by (auto simp: plain_column_def budget_world_def dropna_def)
  then have "summarize_columns budget_world None (df_columns budget_frame) = Inl AttributeError"
    by (simp add: budget_frame_def summarize_column_int split: sum.splits)
  then show ?thesis
    by (simp add: summarize_table_def budget_load)
qed






section \<open>The run: files that cannot be summarised\<close>

lemma fold_read_step:
  "fold (read_step w a) ps (acc, err)
     = (acc @ map (\<lambda>p. projr (summary_of w a p)) (filter (\<lambda>p. \<not> summary_fails w a p) ps),
        err @ map (\<lambda>p. FalhaAoLer p (projl (summary_of w a p)))
                (filter (summary_fails w a) ps))"
proof (induction ps arbitrary: acc err)
  case Nil
  show ?case by simp
next
  case (Cons p ps)
  show ?case
  proof (cases "summary_of w a p")
    case (Inl e)
    then have "read_step w a p (acc, err) = (acc, err @ [FalhaAoLer p e])"
      by (simp add: read_step_def summary_of_def)
    then show ?thesis
      using Inl by (simp add: Cons.IH summary_fails_def)
  next
    case (Inr ts)
    then have "read_step w a p (acc, err) = (acc @ [ts], err)"
      by (simp add: read_step_def summary_of_def)
    then show ?thesis
      using Inr by (simp add: Cons.IH summary_fails_def)
  qed
qed

lemma read_loop:
  "fold (read_step w a) (scan_data_dir w (args_data_dir a)) ([], [])
     = (map (\<lambda>p. projr (summary_of w a p)) (summarized_paths w a),
        map (\<lambda>p. FalhaAoLer p (projl (summary_of w a p))) (failed_paths w a))"
  by (simp add: fold_read_step summarized_paths_def failed_paths_def)

lemma main_missing_dir:
  assumes "\<not> path_exists w (args_data_dir a)"
  shows "main w a = \<lparr>exit_status = SystemExit 2, stderr = [DataDirMissing (args_data_dir a)],
     stdout = None, written = []\<rparr>"
  using assms by (simp add: main_def)

lemma main_stderr:
  assumes "path_exists w (args_data_dir a)"
  shows "stderr (main w a) =
     (if scan_data_dir w (args_data_dir a) = [] then [NenhumArquivo]
      else map (\<lambda>p. FalhaAoLer p (projl (summary_of w a p))) (failed_paths w a)
           @ (if summarized_paths w a = [] then [NaoFoiPossivel] else []))"
  using assms by (simp add: main_def Let_def read_loop split: option.splits)

lemma main_stdout:
  assumes "path_exists w (args_data_dir a)"
  shows "stdout (main w a) =
     (if summarized_paths w a = [] then None
      else Some (markdown_output
             (map (\<lambda>p. projr (summary_of w a p)) (summarized_paths w a))))"
proof (cases "scan_data_dir w (args_data_dir a) = []")
  case True
  then have "summarized_paths w a = []"
    by (simp add: summarized_paths_def)
  with True assms show ?thesis
    by (simp add: main_def)
next
  case False
  with assms show ?thesis
    by (simp add: main_def Let_def read_loop split: option.splits)
qed

lemma main_exit:
  assumes "path_exists w (args_data_dir a)"
  shows "exit_status (main w a) =
     (if summarized_paths w a = [] then Return 1
      else (case write_failure w a of None \<Rightarrow> Return 0 | Some exc \<Rightarrow> Raised exc))"
proof (cases "scan_data_dir w (args_data_dir a) = []")
  case True
  then have "summarized_paths w a = []"
    by (simp add: summarized_paths_def)
  with True assms show ?thesis
    by (simp add: main_def)
next
  case False
  with assms show ?thesis
    by (simp add: main_def Let_def read_loop write_failure_def split: option.splits)
qed

lemma main_written_json:
  assumes "(p, Json doc) \<in> set (written (main w a))"
  shows "doc = map (\<lambda>p. projr (summary_of w a p)) (summarized_paths w a)"
proof (cases "path_exists w (args_data_dir a)")
  case False
  with assms show ?thesis
    by (simp add: main_missing_dir)
next
  case True
  with assms show ?thesis
    by (auto simp: main_def Let_def read_loop split: option.splits if_splits)
qed

lemma summarized_empty_iff:
  "summarized_paths w a = []
     \<longleftrightarrow> (\<forall>p\<in>set (scan_data_dir w (args_data_dir a)). summary_fails w a p)"
  by (simp add: summarized_paths_def filter_empty_conv)

lemma budget_scan:
  "scan_data_dir budget_world [''budgets''] = [[''budgets'', ''plan.xlsx'']]"
  by (simp add: scan_data_dir_def budget_world_def path_suffix_def path_name_def rfind_def
      lower_def lower_char_def SUPPORTED_EXTENSIONS_def)

text \<open>
  C7, as stated: the exit code is 1 exactly when no supported file is found or every
  file fails to load. It fails on a directory with one Excel sheet whose header row
  holds numbers: the file is found and it loads, the summary of the loaded table raises,
  \<open>main\<close> catches that as it catches a failure of the load, and returns 1.
\<close>

theorem exit_code_counterexample:
  "path_exists budget_world (args_data_dir budget_args)
   \<and> scan_data_dir budget_world (args_data_dir budget_args) = [[''budgets'', ''plan.xlsx'']]
   \<and> load_table budget_world [''budgets'', ''plan.xlsx''] (args_sample_rows budget_args)
        = Inr budget_frame
   \<and> exit_status (main budget_world budget_args) = Return 1"
proof -
  have dir: "args_data_dir budget_args = [''budgets'']"
    and sr: "args_sample_rows budget_args = None"
    and tg: "args_target budget_args = None"
    by (simp_all add: budget_args_def)
  have ex: "path_exists budget_world (args_data_dir budget_args)"
    by (simp add: dir budget_world_def)
  have "summary_fails budget_world budget_args [''budgets'', ''plan.xlsx'']"
    by (simp add: summary_fails_def summary_of_def sr tg budget_summary)
  then have "summarized_paths budget_world budget_args = []"
    by (simp add: summarized_paths_def dir budget_scan)
  then have "exit_status (main budget_world budget_args) = Return 1"
    by (simp add: main_exit [OF ex])
  then show ?thesis
    using ex by (simp add: dir sr budget_scan budget_load)
qed

text \<open>
  C7, amended. When the data directory does not exist the run ends with
  \<open>SystemExit(2)\<close> and prints no report. When it exists: each scanned file whose load
  or whose summary raises is reported on the standard error with its path and its
  exception, in scan order, and the run goes on; the report on the standard output and
  the JSON document are made from the summaries of the other scanned files, all of them
  and only them, in scan order; \<open>main\<close> returns 1 exactly when the scan finds no
  supported file or no scanned file can be summarised; it returns 0 exactly when some
  scanned file is summarised and the output files asked for are written; and it is left
  by the exception of \<open>write_text\<close> exactly when some scanned file is summarised and a
  write raises. A file that fails to load is one that cannot be summarised, with the
  error of the load.
\<close>

theorem main_summary_failures:
  "(\<not> path_exists w (args_data_dir a)
      \<longrightarrow> exit_status (main w a) = SystemExit 2 \<and> stdout (main w a) = None)
   \<and> (path_exists w (args_data_dir a)
      \<longrightarrow> stderr (main w a) =
            (if scan_data_dir w (args_data_dir a) = [] then [NenhumArquivo]
             else map (\<lambda>p. FalhaAoLer p (projl (summary_of w a p))) (failed_paths w a)
                  @ (if summarized_paths w a = [] then [NaoFoiPossivel] else []))
          \<and> stdout (main w a) =
              (if summarized_paths w a = [] then None
               else Some (markdown_output
                      (map (\<lambda>p. projr (summary_of w a p)) (summarized_paths w a))))
          \<and> (exit_status (main w a) = Return 1 \<longleftrightarrow>
                scan_data_dir w (args_data_dir a) = []
                \<or> (\<forall>p\<in>set (scan_data_dir w (args_data_dir a)). summary_fails w a p))
          \<and> (exit_status (main w a) = Return 0 \<longleftrightarrow>
                (\<exists>p\<in>set (scan_data_dir w (args_data_dir a)). \<not> summary_fails w a p)
                \<and> write_failure w a = None)
          \<and> (exit_status (main w a) = Raised e \<longleftrightarrow>
                (\<exists>p\<in>set (scan_data_dir w (args_data_dir a)). \<not> summary_fails w a p)
                \<and> write_failure w a = Some e))
   \<and> (\<forall>p doc. (p, Json doc) \<in> set (written (main w a))
        \<longrightarrow> doc = map (\<lambda>p. projr (summary_of w a p)) (summarized_paths w a))
   \<and> set (summarized_paths w a) \<inter> set (failed_paths w a) = {}
   \<and> set (summarized_paths w a) \<union> set (failed_paths w a)
        = set (scan_data_dir w (args_data_dir a))
   \<and> (load_table w q (args_sample_rows a) = Inl e'
        \<longrightarrow> summary_of w a q = Inl e' \<and> summary_fails w a q)"
proof -
  have a0: "exit_status (main w a) = SystemExit 2 \<and> stdout (main w a) = None"
    if "\<not> path_exists w (args_data_dir a)"
    using that by (simp add: main_missing_dir)
  have a1: "stderr (main w a) =
            (if scan_data_dir w (args_data_dir a) = [] then [NenhumArquivo]
             else map (\<lambda>p. FalhaAoLer p (projl (summary_of w a p))) (failed_paths w a)
                  @ (if summarized_paths w a = [] then [NaoFoiPossivel] else []))"
    if "path_exists w (args_data_dir a)"
    using that by (rule main_stderr)
  have a2: "stdout (main w a) =
      (if summarized_paths w a = [] then None
       else Some (markdown_output
              (map (\<lambda>p. projr (summary_of w a p)) (summarized_paths w a))))"
    if "path_exists w (args_data_dir a)"
    using that by (rule main_stdout)
  have some: "summarized_paths w a \<noteq> []
      \<longleftrightarrow> (\<exists>p\<in>set (scan_data_dir w (args_data_dir a)). \<not> summary_fails w a p)"
    by (simp add: summarized_empty_iff)
  have none: "scan_data_dir w (args_data_dir a) = []
        \<or> (\<forall>p\<in>set (scan_data_dir w (args_data_dir a)). summary_fails w a p)
      \<longleftrightarrow> summarized_paths w a = []"
    by (auto simp: summarized_empty_iff)
  have a3: "exit_status (main w a) = Return 1 \<longleftrightarrow>
      scan_data_dir w (args_data_dir a) = []
      \<or> (\<forall>p\<in>set (scan_data_dir w (args_data_dir a)). summary_fails w a p)"
    if "path_exists w (args_data_dir a)"
    unfolding none by (simp add: main_exit [OF that] split: option.splits)
  have a4: "exit_status (main w a) = Return 0 \<longleftrightarrow>
      (\<exists>p\<in>set (scan_data_dir w (args_data_dir a)). \<not> summary_fails w a p)
      \<and> write_failure w a = None"
    if "path_exists w (args_data_dir a)"
    unfolding some [symmetric] by (simp add: main_exit [OF that] split: option.splits)
  have a5: "exit_status (main w a) = Raised e \<longleftrightarrow>
      (\<exists>p\<in>set (scan_data_dir w (args_data_dir a)). \<not> summary_fails w a p)
      \<and> write_failure w a = Some e"
    if "path_exists w (args_data_dir a)"
    unfolding some [symmetric] by (simp add: main_exit [OF that] split: option.splits)
  have a6: "\<forall>p doc. (p, Json doc) \<in> set (written (main w a))
        \<longrightarrow> doc = map (\<lambda>p. projr (summary_of w a p)) (summarized_paths w a)"
    using main_written_json by blast
  have a7: "set (summarized_paths w a) \<inter> set (failed_paths w a) = {}"
    "set (summarized_paths w a) \<union> set (failed_paths w a)
       = set (scan_data_dir w (args_data_dir a))"
    by (auto simp: summarized_paths_def failed_paths_def)
  have a8: "summary_of w a q = Inl e' \<and> summary_fails w a q"
    if "load_table w q (args_sample_rows a) = Inl e'"
  proof -
    have "summarize_table w q (args_target a) (args_sample_rows a) = Inl e'"
      using that by (simp add: summarize_table_error)
    then show ?thesis
      by (simp add: summary_of_def summary_fails_def)
  qed
  show ?thesis
    using a0 a1 a2 a3 a4 a5 a6 a7 a8 by blast
qed

theorem main_summary_failures_witness:
  "path_exists demo_world (args_data_dir demo_args)
   \<and> \<not> path_exists demo_world (args_data_dir missing_dir_args)
   \<and> exit_status (main demo_world missing_dir_args) = SystemExit 2
   \<and> scan_data_dir demo_world (args_data_dir demo_args)
        = [[''data'', ''broken.parquet''], [''data'', ''churn.CSV''], [''data'', ''empty.csv'']]
   \<and> load_table demo_world [''data'', ''broken.parquet''] (args_sample_rows demo_args)
        = Inl (ReadError ''Could not open Parquet input source'')
   \<and> failed_paths demo_world demo_args = [[''data'', ''broken.parquet'']]
   \<and> summarized_paths demo_world demo_args
        = [[''data'', ''churn.CSV''], [''data'', ''empty.csv'']]
   \<and> write_failure demo_world demo_args = None
   \<and> stderr (main demo_world demo_args)
        = [FalhaAoLer [''data'', ''broken.parquet'']
             (ReadError ''Could not open Parquet input source'')]
   \<and> stdout (main demo_world demo_args)
        = Some (markdown_output
            [projr (summary_of demo_world demo_args [''data'', ''churn.CSV'']),
             projr (summary_of demo_world demo_args [''data'', ''empty.csv''])])
   \<and> exit_status (main demo_world demo_args) = Return 0"
proof -
  have dir: "args_data_dir demo_args = [''data'']" and sr: "args_sample_rows demo_args = None"
    and dir': "args_data_dir missing_dir_args = [''nowhere'']"
    by (simp_all add: demo_args_def missing_dir_args_def)
  have h: "path_exists demo_world (args_data_dir demo_args)"
    and h': "\<not> path_exists demo_world (args_data_dir missing_dir_args)"
    by (simp_all add: dir dir' demo_world_def)
  have suf: "lower (path_suffix [''data'', ''notes.txt'']) = ''.txt''"
    "lower (path_suffix [''data'', ''empty.csv'']) = ''.csv''"
    "lower (path_suffix [''data'', ''churn.CSV'']) = ''.csv''"
    "lower (path_suffix [''data'', ''broken.parquet'']) = ''.parquet''"
    by (simp_all add: path_suffix_def path_name_def rfind_def lower_def lower_char_def)
  have sorted_paths: "sort (glob_all demo_world [''data''])
      = [[''data'', ''broken.parquet''], [''data'', ''churn.CSV''], [''data'', ''empty.csv''],
         [''data'', ''notes.txt'']]"
    by (simp add: demo_world_def)
  have files: "path_is_file demo_world [''data'', ''broken.parquet'']"
    "path_is_file demo_world [''data'', ''churn.CSV'']"
    "path_is_file demo_world [''data'', ''empty.csv'']"
    by (simp_all add: demo_world_def)
  have scan: "scan_data_dir demo_world (args_data_dir demo_args)
      = [[''data'', ''broken.parquet''], [''data'', ''churn.CSV''], [''data'', ''empty.csv'']]"
    by (simp add: dir scan_data_dir_def sorted_paths files suf SUPPORTED_EXTENSIONS_def)
  have loads: "load_table demo_world [''data'', ''broken.parquet''] None
        = Inl (ReadError ''Could not open Parquet input source'')"
    "load_table demo_world [''data'', ''churn.CSV''] None = Inr churn_frame"
    "load_table demo_world [''data'', ''empty.csv''] None = Inr empty_frame"
    by (simp_all add: load_table_def suf demo_world_def)
  have hash: "hashable demo_world = (\<lambda>c. True)"
    by (simp add: demo_world_def)
  have plain: "list_all (plain_column demo_world) (df_columns churn_frame)"
    "list_all (plain_column demo_world) (df_columns empty_frame)"
    by (simp_all add: churn_frame_def empty_frame_def plain_column_def hash list_all_iff)
  have ok1: "\<not> isl (summarize_table demo_world [''data'', ''churn.CSV'']
      (args_target demo_args) None)"
    using summarize_columns_plain [OF plain(1), of "args_target demo_args"]
    by (auto simp: summarize_table_def loads)
  have ok2: "\<not> isl (summarize_table demo_world [''data'', ''empty.csv'']
      (args_target demo_args) None)"
    using summarize_columns_plain [OF plain(2), of "args_target demo_args"]
    by (auto simp: summarize_table_def loads)
  have bad: "summarize_table demo_world [''data'', ''broken.parquet'']
      (args_target demo_args) None = Inl (ReadError ''Could not open Parquet input source'')"
    by (simp add: summarize_table_def loads)
  have fails: "summary_fails demo_world demo_args [''data'', ''broken.parquet'']"
    "\<not> summary_fails demo_world demo_args [''data'', ''churn.CSV'']"
    "\<not> summary_fails demo_world demo_args [''data'', ''empty.csv'']"
    by (simp_all add: summary_fails_def summary_of_def sr ok1 ok2 bad)
  have failed: "failed_paths demo_world demo_args = [[''data'', ''broken.parquet'']]"
    by (simp add: failed_paths_def scan fails)
  have summ: "summarized_paths demo_world demo_args
      = [[''data'', ''churn.CSV''], [''data'', ''empty.csv'']]"
    by (simp add: summarized_paths_def scan fails)
  have wf: "write_failure demo_world demo_args = None"
    by (simp add: write_failure_def demo_args_def demo_world_def)
  have e: "(\<exists>p\<in>set (scan_data_dir demo_world (args_data_dir demo_args)).
      \<not> summary_fails demo_world demo_args p) \<and> write_failure demo_world demo_args = None"
    using fails(2) wf by (simp add: scan)
  note t = main_summary_failures [of demo_world demo_args]
  note t' = main_summary_failures [of demo_world missing_dir_args]
  have x2: "exit_status (main demo_world missing_dir_args) = SystemExit 2"
    using t' h' by blast
  have "stderr (main demo_world demo_args)
      = [FalhaAoLer [''data'', ''broken.parquet'']
           (ReadError ''Could not open Parquet input source'')]"
    using t [THEN conjunct2, THEN conjunct1, THEN mp, OF h, THEN conjunct1]
    by (simp add: scan failed summ summary_of_def sr bad)
  moreover have "stdout (main demo_world demo_args)
      = Some (markdown_output
          [projr (summary_of demo_world demo_args [''data'', ''churn.CSV'']),
           projr (summary_of demo_world demo_args [''data'', ''empty.csv''])])"
    using t [THEN conjunct2, THEN conjunct1, THEN mp, OF h, THEN conjunct2, THEN conjunct1]
    by (simp add: summ)
  moreover have "exit_status (main demo_world demo_args) = Return 0"
    using t [THEN conjunct2, THEN conjunct1, THEN mp, OF h, THEN conjunct2, THEN conjunct2,
        THEN conjunct2, THEN conjunct1] e
    by (rule iffD2)
  ultimately show ?thesis
    using h h' x2 scan loads(1) failed summ wf by (simp add: sr)
qed

section \<open>The list of modelling candidates\<close>

lemma fold_add_candidate:
  "fold (add_candidate ts) cols d
     = fold put_candidate (map (\<lambda>col. (candidate_key ts col, col)) cols) d"
  by (induction cols arbitrary: d) (simp_all add: add_candidate_def put_candidate_def)

lemma aggregate_fold:
  "fold aggregate_step tss (parts, d)
     = (parts @ map TableSection tss, fold put_candidate (keyed_columns tss) d)"
proof (induction tss arbitrary: parts d)
  case Nil
  show ?case by (simp add: keyed_columns_def)
next
  case (Cons ts tss)
  have "keyed_columns (ts # tss)
      = map (\<lambda>col. (candidate_key ts col, col)) (column_summaries ts) @ keyed_columns tss"
    by (simp add: keyed_columns_def)
  moreover have "aggregate_step ts (parts, d)
      = (parts @ [TableSection ts],
         fold put_candidate
           (map (\<lambda>col. (candidate_key ts col, col)) (column_summaries ts)) d)"
    by (simp add: aggregate_step_def fold_add_candidate)
  ultimately show ?case
    by (simp add: Cons.IH)
qed

lemma update_fresh:
  "k \<notin> fst ` set al \<Longrightarrow> AList.update k v al = al @ [(k, v)]"
  by (induction al) auto

lemma fold_put_distinct:
  assumes "distinct (map fst (filter (\<lambda>kc. eligible (snd kc)) kcs))"
    and "fst ` set (filter (\<lambda>kc. eligible (snd kc)) kcs) \<inter> fst ` set d = {}"
  shows "fold put_candidate kcs d
     = d @ map (\<lambda>kc. (fst kc, candidate_info_of (snd kc)))
             (filter (\<lambda>kc. eligible (snd kc)) kcs)"
  using assms
proof (induction kcs arbitrary: d)
  case Nil
  show ?case by simp
next
  case (Cons kc kcs)
  have rest: "distinct (map fst (filter (\<lambda>kc. eligible (snd kc)) kcs))"
    using Cons.prems(1) by (simp split: if_splits)
  show ?case
  proof (cases "eligible (snd kc)")
    case True
    have fresh: "fst kc \<notin> fst ` set d"
      using Cons.prems(2) True by auto
    have step: "put_candidate kc d = d @ [(fst kc, candidate_info_of (snd kc))]"
      by (simp add: put_candidate_def True update_fresh [OF fresh])
    have "fst ` set (filter (\<lambda>kc. eligible (snd kc)) kcs)
        \<inter> fst ` set (d @ [(fst kc, candidate_info_of (snd kc))]) = {}"
      using Cons.prems True by auto
    then show ?thesis
      using Cons.IH [of "d @ [(fst kc, candidate_info_of (snd kc))]"] rest True step
      by simp
  next
    case False
    have "fst ` set (filter (\<lambda>kc. eligible (snd kc)) kcs) \<inter> fst ` set d = {}"
      using Cons.prems(2) False by auto
    then show ?thesis
      using Cons.IH [of d] rest False by (simp add: put_candidate_def)
  qed
qed

lemma candidates_distinct:
  assumes "distinct (map fst (filter (\<lambda>kc. eligible (snd kc)) (keyed_columns tss)))"
  shows "snd (aggregate tss)
     = map (\<lambda>kc. (fst kc, candidate_info_of (snd kc)))
         (filter (\<lambda>kc. eligible (snd kc)) (keyed_columns tss))"
  using fold_put_distinct [OF assms, of "[]"] by (simp add: aggregate_def aggregate_fold)

lemma eligible_info:
  "candidate_info_of c = candidate_info_of c' \<Longrightarrow> eligible c = eligible c'"
  by (simp add: candidate_info_of_def eligible_def)

lemma keyed_columns_iff:
  "kc \<in> set (keyed_columns tss)
     \<longleftrightarrow> (\<exists>ts\<in>set tss. \<exists>c\<in>set (column_summaries ts). kc = (candidate_key ts c, c))"
  by (auto simp: keyed_columns_def)

lemma sorted_candidates_order:
  "sorted_wrt (\<lambda>x y. info_non_null_pct (snd x) > info_non_null_pct (snd y)
       \<or> (info_non_null_pct (snd x) = info_non_null_pct (snd y) \<and> fst x \<le> fst y))
     (sorted_candidates d)"
proof -
  have "sorted (map (\<lambda>item. (- info_non_null_pct (snd item), fst item)) (sorted_candidates d))"
    by (simp add: sorted_candidates_def)
  then have "sorted_wrt
       (\<lambda>x y. (- info_non_null_pct (snd x), fst x) \<le> (- info_non_null_pct (snd y), fst y))
     (sorted_candidates d)"
    by (simp add: sorted_map)
  then show ?thesis
    by (rule sorted_wrt_mono_rel [rotated]) (auto simp: less_eq_prod_def)
qed

text \<open>
  The list is always sorted by descending coverage, ties broken by ascending key. And
  where the columns that qualify have pairwise distinct keys, the list holds exactly
  those columns: a column is in it if and only if its role is numeric, categorical or
  binary and its coverage is at least 60, and every entry is such a column.
\<close>

lemma candidates_when_eligible_keys_distinct:
  assumes "distinct (map fst (filter (\<lambda>kc. eligible (snd kc)) (keyed_columns tss)))"
  shows "(\<forall>ts\<in>set tss. \<forall>c\<in>set (column_summaries ts).
            (candidate_key ts c, candidate_info_of c) \<in> set (modeling_candidate_list tss)
              \<longleftrightarrow> col_role c \<in> {Numerica, Categorica, Binaria} \<and> non_null_pct c \<ge> 60)
       \<and> (\<forall>item\<in>set (modeling_candidate_list tss).
            \<exists>ts\<in>set tss. \<exists>c\<in>set (column_summaries ts).
              item = (candidate_key ts c, candidate_info_of c))
       \<and> sorted_wrt (\<lambda>x y. info_non_null_pct (snd x) > info_non_null_pct (snd y)
             \<or> (info_non_null_pct (snd x) = info_non_null_pct (snd y) \<and> fst x \<le> fst y))
           (modeling_candidate_list tss)"
proof -
  let ?entry = "\<lambda>kc. (fst kc, candidate_info_of (snd kc))"
  have set_eq: "set (modeling_candidate_list tss)
      = ?entry ` {kc \<in> set (keyed_columns tss). eligible (snd kc)}"
    by (simp add: modeling_candidate_list_def sorted_candidates_def
        candidates_distinct [OF assms])
  have one: "(candidate_key ts c, candidate_info_of c) \<in> set (modeling_candidate_list tss)
      \<longleftrightarrow> col_role c \<in> {Numerica, Categorica, Binaria} \<and> non_null_pct c \<ge> 60"
    if "ts \<in> set tss" and "c \<in> set (column_summaries ts)" for ts c
  proof
    assume "(candidate_key ts c, candidate_info_of c) \<in> set (modeling_candidate_list tss)"
    then obtain kc where "eligible (snd kc)"
      and "candidate_info_of c = candidate_info_of (snd kc)"
      unfolding set_eq by auto
    then have "eligible c"
      using eligible_info by blast
    then show "col_role c \<in> {Numerica, Categorica, Binaria} \<and> non_null_pct c \<ge> 60"
      by (simp add: eligible_def)
  next
    assume "col_role c \<in> {Numerica, Categorica, Binaria} \<and> non_null_pct c \<ge> 60"
    then have "eligible c"
      by (simp add: eligible_def)
    moreover have "(candidate_key ts c, c) \<in> set (keyed_columns tss)"
      using that keyed_columns_iff by blast
    ultimately have "?entry (candidate_key ts c, c) \<in> set (modeling_candidate_list tss)"
      unfolding set_eq by (intro imageI) simp
    then show "(candidate_key ts c, candidate_info_of c) \<in> set (modeling_candidate_list tss)"
      by simp
  qed
  have two: "\<exists>ts\<in>set tss. \<exists>c\<in>set (column_summaries ts).
      item = (candidate_key ts c, candidate_info_of c)"
    if "item \<in> set (modeling_candidate_list tss)" for item
  proof -
    from that obtain kc where "kc \<in> set (keyed_columns tss)" and "item = ?entry kc"
      unfolding set_eq by auto
    then show ?thesis
      using keyed_columns_iff by fastforce
  qed
  show ?thesis
    using one two sorted_candidates_order [of "snd (aggregate tss)"]
    by (simp add: modeling_candidate_list_def)
qed

lemma candidate_list_collision:
  "modeling_candidate_list [sales_2023, sales_2024]
     = [(''sales.csv::amount'', candidate_info_of amount_2024)]"
  by (simp add: modeling_candidate_list_def aggregate_def aggregate_step_def
      add_candidate_def sorted_candidates_def sales_2023_def sales_2024_def
      candidate_key_def path_name_def eligible_def amount_2023_def amount_2024_def)

text \<open>
  C2. Two files of the same name in two subdirectories, as the recursive scan finds
  them, each with a column \<open>amount\<close> that qualifies (numeric, coverage 100 and 75).
  The key is made of the file name so that the columns of different files stay apart,
  but both columns get the key \<open>sales.csv::amount\<close>, the dictionary keeps one entry for
  it, and the list of candidates holds the column of the second file only: the column
  of the first file qualifies and is not in the list, while the report keeps a section
  for each of the two files.
\<close>

theorem same_name_files_candidate_lost:
  "amount_2023 \<in> set (column_summaries sales_2023)
   \<and> col_role amount_2023 \<in> {Numerica, Categorica, Binaria}
   \<and> non_null_pct amount_2023 \<ge> 60
   \<and> candidate_key sales_2023 amount_2023 = ''sales.csv::amount''
   \<and> candidate_key sales_2024 amount_2024 = ''sales.csv::amount''
   \<and> modeling_candidate_list [sales_2023, sales_2024]
        = [(''sales.csv::amount'', candidate_info_of amount_2024)]
   \<and> (candidate_key sales_2023 amount_2023, candidate_info_of amount_2023)
        \<notin> set (modeling_candidate_list [sales_2023, sales_2024])
   \<and> fst (aggregate [sales_2023, sales_2024])
        = [Title, TableSection sales_2023, TableSection sales_2024]"
proof -
  have keys: "candidate_key sales_2023 amount_2023 = ''sales.csv::amount''"
    "candidate_key sales_2024 amount_2024 = ''sales.csv::amount''"
    by (simp_all add: candidate_key_def path_name_def sales_2023_def sales_2024_def
        amount_2023_def amount_2024_def)
  have col: "amount_2023 \<in> set (column_summaries sales_2023)"
    "col_role amount_2023 \<in> {Numerica, Categorica, Binaria}"
    "non_null_pct amount_2023 \<ge> 60"
    by (simp_all add: sales_2023_def amount_2023_def)
  have differ: "candidate_info_of amount_2023 \<noteq> candidate_info_of amount_2024"
    by (simp add: candidate_info_of_def amount_2023_def amount_2024_def)
  have parts: "fst (aggregate [sales_2023, sales_2024])
      = [Title, TableSection sales_2023, TableSection sales_2024]"
    unfolding aggregate_def aggregate_fold by simp
  show ?thesis
    using keys col differ parts by (simp add: candidate_list_collision)
qed

end
